theory Spec2Isabelle
  imports Main
begin

text \<open>
  The meeting scheduler: the Microsoft Graph client with its token cache, the tool's
  \<open>execute\<close> and the handler of the Express server, as functions on an explicit
  world (clock, remote services, log of the requests sent). A thrown Error is the
  value \<open>Inl\<close> of its message.
\<close>

section \<open>JavaScript values\<close>

text \<open>
  Values that travel as \<open>any\<close> in the source (the parsed body of a provider response,
  the object literals the program builds) are JavaScript values. An object is the list
  of its own properties in insertion order, with distinct keys; a property may hold
  \<open>undefined\<close>. A number inside such a value is an integer; the program copies
  these numbers and never computes with them.
\<close>

datatype jsval =
    Undefined
  | Null
  | JBool bool
  | JNum int
  | JStr string
  | JArr "jsval list"
  | JObj "(string \<times> jsval) list"

fun nullish :: "jsval \<Rightarrow> bool" where
  "nullish Undefined = True"
| "nullish Null = True"
| "nullish _ = False"

text \<open>
  Reading a property of a value that is neither \<open>null\<close> nor \<open>undefined\<close>. The names
  the program reads (\<open>id\<close>, \<open>joinUrl\<close>, \<open>audioConferencing\<close>, ...) are none of
  them inherited from a prototype, so a primitive or an array has none of them.
\<close>

fun own_property :: "jsval \<Rightarrow> string \<Rightarrow> jsval" where
  "own_property (JObj fs) k = (case map_of fs k of None \<Rightarrow> Undefined | Some v \<Rightarrow> v)"
| "own_property _ k = Undefined"

fun type_name :: "jsval \<Rightarrow> string" where
  "type_name Null = ''null''"
| "type_name _ = ''undefined''"

text \<open>\<open>v.k\<close>: a TypeError (with the message of Node 18) when \<open>v\<close> is null or undefined.\<close>

definition member :: "jsval \<Rightarrow> string \<Rightarrow> string + jsval" where
  "member v k =
     (if nullish v
      then Inl (''Cannot read properties of '' @ type_name v @ '' (reading '' @
                [CHR 0x27] @ k @ [CHR 0x27] @ '')'')
      else Inr (own_property v k))"

text \<open>\<open>v?.k\<close>: undefined when \<open>v\<close> is null or undefined.\<close>

definition optional_member :: "jsval \<Rightarrow> string \<Rightarrow> jsval" where
  "optional_member v k = (if nullish v then Undefined else own_property v k)"

text \<open>Truthiness of a value of type \<open>string | null | undefined\<close>.\<close>

fun truthy :: "string option \<Rightarrow> bool" where
  "truthy None = False"
| "truthy (Some s) = (s \<noteq> [])"

text \<open>\<open>a || b\<close> on such values.\<close>

definition or_else :: "string option \<Rightarrow> string option \<Rightarrow> string option" where
  "or_else a b = (if truthy a then a else b)"

text \<open>\<open>a ?? d\<close> on an optional boolean.\<close>

fun nullish_coalesce :: "bool option \<Rightarrow> bool \<Rightarrow> bool" where
  "nullish_coalesce None d = d"
| "nullish_coalesce (Some b) d = b"

text \<open>
  The numbers the program computes with are IEEE doubles whose values are integers
  (milliseconds and seconds), NaN and the two infinities. \<open>Num n\<close> is the double
  of value \<open>n\<close>, for an \<open>n\<close> that is one. A sum or a product is the exact integer result rounded to the nearest
  double, ties to the even mantissa: exact up to \<open>2^53\<close>, a multiple of
  \<open>2^(bit_length - 53)\<close> above it, and infinite when the rounded value needs more
  than 1024 bits (from \<open>2^1024 - 2^970\<close> on).
\<close>

datatype number = NaN | Num int | Infinity | Minus_Infinity

fun bit_length :: "nat \<Rightarrow> nat" where
  "bit_length n = (if n = 0 then 0 else Suc (bit_length (n div 2)))"

declare bit_length.simps [simp del]

definition exact :: "int \<Rightarrow> bool" where
  "exact n = (\<bar>n\<bar> \<le> 2 ^ 53)"

definition round_double :: "int \<Rightarrow> number" where
  "round_double n =
     (if exact n then Num n
      else
        (let q = 2 ^ (bit_length (nat \<bar>n\<bar>) - 53);
             m = \<bar>n\<bar> div q;
             r = \<bar>n\<bar> mod q;
             v = (if q < 2 * r \<or> (2 * r = q \<and> odd m) then m + 1 else m) * q
         in if 1024 < bit_length (nat v) then (if 0 < n then Infinity else Minus_Infinity)
            else Num (if 0 < n then v else - v)))"

fun number_uminus :: "number \<Rightarrow> number" where
  "number_uminus NaN = NaN"
| "number_uminus (Num a) = Num (- a)"
| "number_uminus Infinity = Minus_Infinity"
| "number_uminus Minus_Infinity = Infinity"

text \<open>\<open>a + b\<close>, \<open>a - b\<close> and \<open>a * b\<close> on numbers.\<close>

fun number_plus :: "number \<Rightarrow> number \<Rightarrow> number" where
  "number_plus NaN b = NaN"
| "number_plus a NaN = NaN"
| "number_plus (Num a) (Num b) = round_double (a + b)"
| "number_plus (Num a) b = b"
| "number_plus a (Num b) = a"
| "number_plus a b = (if a = b then a else NaN)"

definition number_minus :: "number \<Rightarrow> number \<Rightarrow> number" where
  "number_minus a b = number_plus a (number_uminus b)"

fun number_times :: "number \<Rightarrow> number \<Rightarrow> number" where
  "number_times NaN b = NaN"
| "number_times a NaN = NaN"
| "number_times (Num a) (Num b) = round_double (a * b)"
| "number_times (Num a) b =
     (if a = 0 then NaN else if 0 < a then b else number_uminus b)"
| "number_times a (Num b) =
     (if b = 0 then NaN else if 0 < b then a else number_uminus a)"
| "number_times a b = (if a = b then Infinity else Minus_Infinity)"

text \<open>\<open>a < b\<close> where \<open>a\<close> is a reading of the clock: false when \<open>b\<close> is NaN.\<close>

fun less_number :: "int \<Rightarrow> number \<Rightarrow> bool" where
  "less_number a NaN = False"
| "less_number a (Num b) = (a < b)"
| "less_number a Infinity = True"
| "less_number a Minus_Infinity = False"

text \<open>The decimal rendering of a number in a template literal.\<close>

fun show_nat :: "nat \<Rightarrow> string" where
  "show_nat n =
     (if n < 10 then [''0123456789'' ! n]
      else show_nat (n div 10) @ [''0123456789'' ! (n mod 10)])"

declare show_nat.simps [simp del]

definition show_int :: "int \<Rightarrow> string" where
  "show_int i = (if i < 0 then ''-'' @ show_nat (nat (- i)) else show_nat (nat i))"

text \<open>\<open>s.includes(p)\<close>.\<close>

fun starts_with :: "string \<Rightarrow> string \<Rightarrow> bool" where
  "starts_with s [] = True"
| "starts_with [] (p # ps) = False"
| "starts_with (c # cs) (p # ps) = (c = p \<and> starts_with cs ps)"

fun includes_str :: "string \<Rightarrow> string \<Rightarrow> bool" where
  "includes_str [] p = (p = [])"
| "includes_str (c # cs) p = (starts_with (c # cs) p \<or> includes_str cs p)"


section \<open>The world outside the program\<close>

text \<open>
  A request as \<open>fetch\<close> sends it. Both are POSTs: the credential exchange carries a
  form-encoded body (\<open>URLSearchParams\<close>, kept as its list of fields), the meeting
  creation carries the bearer token of the \<open>Authorization\<close> header and a JSON body
  (the object given to \<open>JSON.stringify\<close>).
\<close>

datatype request =
    Form_post string "(string \<times> string) list"
  | Json_post string "string option" "(string \<times> jsval) list"

text \<open>
  What \<open>fetch\<close> resolves to: a status, and the outcome of reading the body as text and as
  JSON (\<open>Inl\<close>: the read rejects with an Error of that message).
\<close>

record 'a response =
  status :: nat
  body_text :: "string + string"
  body_json :: "string + 'a"

definition ok :: "'a response \<Rightarrow> bool" where
  "ok r = (200 \<le> status r \<and> status r \<le> 299)"

text \<open>\<open>fetch\<close> either rejects (a transport failure, with its message) or resolves.\<close>

datatype 'a reply = Rejected string | Responded "'a response"

text \<open>
  The JSON of a token response, at the type the program reads it: \<open>access_token\<close> is a
  string or absent, \<open>expires_in\<close> is the number the subtraction \<open>data.expires_in - 60\<close>
  converts the field to (NaN for an absent field).
\<close>

record token_data =
  access_token :: "string option"
  expires_in :: number

text \<open>
  The world: the wall clock as the sequence of its readings (\<open>clock w k\<close> is what the
  \<open>k\<close>-th reading returns, in milliseconds), the two remote services (the reply to a
  request depends on the request and on how many were sent before), the log of the
  requests sent, and the library functions of the runtime that the program calls on
  dates and random numbers.
\<close>

record world =
  clock :: "nat \<Rightarrow> int"
  reads :: nat
  token_endpoint :: "nat \<Rightarrow> request \<Rightarrow> token_data reply"
  graph_endpoint :: "nat \<Rightarrow> request \<Rightarrow> jsval reply"
  sent :: "request list"
  Date_parse :: "string \<Rightarrow> int option"
  toISOString :: "int \<Rightarrow> string"
  random36 :: string

text \<open>\<open>Date.now()\<close> and \<open>new Date()\<close>: one reading of the clock.\<close>

definition Date_now :: "world \<Rightarrow> int \<times> world" where
  "Date_now w = (clock w (reads w), w\<lparr>reads := Suc (reads w)\<rparr>)"

definition fetch_token :: "request \<Rightarrow> world \<Rightarrow> token_data reply \<times> world" where
  "fetch_token rq w = (token_endpoint w (length (sent w)) rq, w\<lparr>sent := sent w @ [rq]\<rparr>)"

definition fetch_graph :: "request \<Rightarrow> world \<Rightarrow> jsval reply \<times> world" where
  "fetch_graph rq w = (graph_endpoint w (length (sent w)) rq, w\<lparr>sent := sent w @ [rq]\<rparr>)"

fun is_token_request :: "request \<Rightarrow> bool" where
  "is_token_request (Form_post u fs) = True"
| "is_token_request (Json_post u b p) = False"

definition token_requests :: "world \<Rightarrow> nat" where
  "token_requests w = length (filter is_token_request (sent w))"

definition meeting_requests :: "world \<Rightarrow> nat" where
  "meeting_requests w = length (filter (\<lambda>rq. \<not> is_token_request rq) (sent w))"


section \<open>MicrosoftGraphClient\<close>

text \<open>
  The class is declared twice in the source, in the tool and in the Express server, with
  the same fields and method bodies.
\<close>

record client =
  accessToken :: "string option"
  tokenExpiry :: number
  clientId :: string
  clientSecret :: string
  tenantId :: string

definition new_MicrosoftGraphClient :: "string \<Rightarrow> string \<Rightarrow> string \<Rightarrow> client" where
  "new_MicrosoftGraphClient cid secret tenant =
     \<lparr>accessToken = None, tokenExpiry = Num 0,
      clientId = cid, clientSecret = secret, tenantId = tenant\<rparr>"

definition tokenUrl :: "client \<Rightarrow> string" where
  "tokenUrl c = ''https://login.microsoftonline.com/'' @ tenantId c @ ''/oauth2/v2.0/token''"

definition params :: "client \<Rightarrow> (string \<times> string) list" where
  "params c =
     [(''client_id'', clientId c),
      (''client_secret'', clientSecret c),
      (''scope'', ''https://graph.microsoft.com/.default''),
      (''grant_type'', ''client_credentials'')]"

text \<open>The \<open>catch\<close> of \<open>authenticate\<close>: every error of the \<open>try\<close> block is thrown again, wrapped.\<close>

definition authenticate_catch :: "string \<Rightarrow> string" where
  "authenticate_catch msg = ''Failed to authenticate with Microsoft Graph: '' @ msg"

text \<open>
  The part of \<open>authenticate\<close> after the cache test: the credential exchange. The second
  reading of the clock happens after the response has arrived and its JSON is read.
\<close>

definition exchange :: "client \<Rightarrow> world \<Rightarrow> (string + unit) \<times> client \<times> world" where
  "exchange c w =
     (let (rep, w1) = fetch_token (Form_post (tokenUrl c) (params c)) w in
      case rep of
        Rejected msg \<Rightarrow> (Inl (authenticate_catch msg), c, w1)
      | Responded r \<Rightarrow>
          if \<not> ok r then
            (case body_text r of
               Inl msg \<Rightarrow> (Inl (authenticate_catch msg), c, w1)
             | Inr errorText \<Rightarrow>
                 (Inl (authenticate_catch
                        (''Authentication failed: '' @ show_nat (status r) @ '' - '' @ errorText)),
                  c, w1))
          else
            (case body_json r of
               Inl msg \<Rightarrow> (Inl (authenticate_catch msg), c, w1)
             | Inr data \<Rightarrow>
                 let (now, w2) = Date_now w1 in
                 (Inr (),
                  c\<lparr>accessToken := access_token data,
                    tokenExpiry :=
                      number_plus (Num now)
                        (number_times (number_minus (expires_in data) (Num 60)) (Num 1000))\<rparr>,
                  w2)))"

text \<open>
  \<open>authenticate\<close>. The test \<open>this.accessToken && Date.now() < this.tokenExpiry\<close> reads the
  clock only when there is a token.
\<close>

definition authenticate :: "client \<Rightarrow> world \<Rightarrow> (string + unit) \<times> client \<times> world" where
  "authenticate c w =
     (if truthy (accessToken c) then
        (let (now, w1) = Date_now w in
         if less_number now (tokenExpiry c) then (Inr (), c, w1)
         else exchange c w1)
      else exchange c w)"

text \<open>The argument of \<open>createMeeting\<close>, which is also the input of the tool.\<close>

record MeetingSchedulerInput =
  subject :: string
  startDateTime :: string
  endDateTime :: string
  attendees :: "string list option"
  description :: "string option"
  allowCamera :: "bool option"
  allowMicrophone :: "bool option"
  allowRecording :: "bool option"

definition endpoint :: "string option \<Rightarrow> string" where
  "endpoint userId =
     (case userId of
        Some u \<Rightarrow>
          if u \<noteq> [] then ''https://graph.microsoft.com/v1.0/users/'' @ u @ ''/onlineMeetings''
          else ''https://graph.microsoft.com/v1.0/me/onlineMeetings''
      | None \<Rightarrow> ''https://graph.microsoft.com/v1.0/me/onlineMeetings'')"

definition meetingPayload :: "MeetingSchedulerInput \<Rightarrow> (string \<times> jsval) list" where
  "meetingPayload meetingData =
     [(''startDateTime'', JStr (startDateTime meetingData)),
      (''endDateTime'', JStr (endDateTime meetingData)),
      (''subject'', JStr (subject meetingData))] @
     (case description meetingData of
        Some d \<Rightarrow> if d \<noteq> [] then [(''externalId'', JStr d)] else []
      | None \<Rightarrow> []) @
     [(''allowAttendeeToEnableCamera'', JBool (nullish_coalesce (allowCamera meetingData) True)),
      (''allowAttendeeToEnableMic'', JBool (nullish_coalesce (allowMicrophone meetingData) True)),
      (''allowRecording'', JBool (nullish_coalesce (allowRecording meetingData) False)),
      (''allowMeetingChat'', JStr ''enabled''),
      (''allowedPresenters'', JStr ''everyone'')]"

definition createMeeting_catch :: "string \<Rightarrow> string" where
  "createMeeting_catch msg = ''Failed to create Teams meeting: '' @ msg"

text \<open>\<open>createMeeting\<close>: the call of \<open>authenticate\<close> is outside the \<open>try\<close>, its error is not wrapped.\<close>

definition createMeeting ::
  "client \<Rightarrow> MeetingSchedulerInput \<Rightarrow> string option \<Rightarrow> world \<Rightarrow> (string + jsval) \<times> client \<times> world" where
  "createMeeting c meetingData userId w =
     (case authenticate c w of
        (Inl e, c1, w1) \<Rightarrow> (Inl e, c1, w1)
      | (Inr u, c1, w1) \<Rightarrow>
          (let (rep, w2) =
                 fetch_graph (Json_post (endpoint userId) (accessToken c1)
                                        (meetingPayload meetingData)) w1 in
           case rep of
             Rejected msg \<Rightarrow> (Inl (createMeeting_catch msg), c1, w2)
           | Responded r \<Rightarrow>
               if \<not> ok r then
                 (case body_text r of
                    Inl msg \<Rightarrow> (Inl (createMeeting_catch msg), c1, w2)
                  | Inr errorText \<Rightarrow>
                      (Inl (createMeeting_catch
                             (''Meeting creation failed: '' @ show_nat (status r) @ '' - '' @
                              errorText)),
                       c1, w2))
               else
                 (case body_json r of
                    Inl msg \<Rightarrow> (Inl (createMeeting_catch msg), c1, w2)
                  | Inr v \<Rightarrow> (Inr v, c1, w2))))"


section \<open>The tool: \<open>execute\<close>\<close>

record MeetingSchedulerConfig =
  client_id :: "string option"
  client_secret :: "string option"
  tenant_id :: "string option"
  user_id :: "string option"

text \<open>The execution context that the framework hands to \<open>execute\<close>.\<close>

record execution_context =
  executionId :: string
  timestamp :: int

text \<open>
  The object \<open>meetingInfo\<close>. Its first property reads \<open>meetingResult.id\<close>, which throws
  when the response body is \<open>null\<close>; once that read has succeeded the later plain reads
  cannot throw.
\<close>

definition meetingInfo :: "jsval \<Rightarrow> string + jsval" where
  "meetingInfo meetingResult =
     (case member meetingResult ''id'' of
        Inl e \<Rightarrow> Inl e
      | Inr meeting_id \<Rightarrow>
          Inr (JObj
            [(''meeting_id'', meeting_id),
             (''join_url'', own_property meetingResult ''joinUrl''),
             (''conference_id'',
                optional_member (own_property meetingResult ''audioConferencing'') ''conferenceId''),
             (''dial_in_url'',
                optional_member (own_property meetingResult ''audioConferencing'') ''dialinUrl''),
             (''subject'', own_property meetingResult ''subject''),
             (''start_time'', own_property meetingResult ''startDateTime''),
             (''end_time'', own_property meetingResult ''endDateTime''),
             (''created_at'', own_property meetingResult ''creationDateTime''),
             (''organizer'',
                optional_member
                  (optional_member (own_property meetingResult ''organizer'') ''user'')
                  ''displayName''),
             (''settings'', JObj
                [(''allow_camera'', own_property meetingResult ''allowAttendeeToEnableCamera''),
                 (''allow_microphone'', own_property meetingResult ''allowAttendeeToEnableMic''),
                 (''allow_recording'', own_property meetingResult ''allowRecording''),
                 (''chat_enabled'',
                    JBool (own_property meetingResult ''allowMeetingChat'' = JStr ''enabled''))])]))"

text \<open>
  The object literal that \<open>execute\<close> passes to \<open>createMeeting\<close>: a spread of a falsy
  value adds nothing, so an empty description is dropped; an array is always truthy.
\<close>

definition execute_meetingData :: "MeetingSchedulerInput \<Rightarrow> MeetingSchedulerInput" where
  "execute_meetingData input =
     \<lparr>subject = subject input,
      startDateTime = startDateTime input,
      endDateTime = endDateTime input,
      attendees = attendees input,
      description = (if truthy (description input) then description input else None),
      allowCamera = allowCamera input,
      allowMicrophone = allowMicrophone input,
      allowRecording = allowRecording input\<rparr>"

text \<open>The value that \<open>execute\<close> returns on success.\<close>

definition success_result ::
  "MeetingSchedulerInput \<Rightarrow> execution_context \<Rightarrow> world \<Rightarrow> jsval \<Rightarrow> jsval" where
  "success_result input context w info =
     JObj
      [(''status'', JStr ''success''),
       (''data'', JObj
          [(''meeting'', info),
           (''summary'',
              JStr (''Successfully created Teams meeting '' @ [CHR 0x22] @ subject input @
                    [CHR 0x22] @ '' for '' @ startDateTime input)),
           (''attendees_count'',
              JNum (case attendees input of None \<Rightarrow> 0 | Some xs \<Rightarrow> int (length xs))),
           (''instructions'', JArr
              [JStr ''Share the join URL with attendees to join the meeting'',
               JStr ''Meeting will be available 15 minutes before the start time'',
               JStr (if allowRecording input = Some True
                     then ''Recording is enabled for this meeting''
                     else ''Recording is disabled for this meeting'')]),
           (''metadata'', JObj
              [(''execution_id'', JStr (executionId context)),
               (''timestamp'', JStr (toISOString w (timestamp context))),
               (''tool_version'', JStr ''1.0.0''),
               (''provider'', JStr ''Microsoft Teams via Graph API'')])])]"

definition missing_configuration :: string where
  "missing_configuration =
     ''Missing required Microsoft Graph API configuration: '' @
     ''client_id, client_secret, and tenant_id are required''"

text \<open>
  The \<open>try\<close> block of \<open>execute\<close>; \<open>Inl\<close> is the message of the Error thrown in it.
  The lines written to the console are not part of the model.
\<close>

definition execute_try ::
  "MeetingSchedulerInput \<Rightarrow> MeetingSchedulerConfig \<Rightarrow> execution_context \<Rightarrow> world
   \<Rightarrow> (string + jsval) \<times> world" where
  "execute_try input cfg context w =
     (case (client_id cfg, client_secret cfg, tenant_id cfg) of
        (Some cid, Some secret, Some tenant) \<Rightarrow>
          if cid = [] \<or> secret = [] \<or> tenant = [] then (Inl missing_configuration, w)
          else
            (case (Date_parse w (startDateTime input), Date_parse w (endDateTime input)) of
               (Some startTime, Some endTime) \<Rightarrow>
                 if endTime \<le> startTime then (Inl ''End time must be after start time'', w)
                 else
                   (let (now, w1) = Date_now w in
                    if startTime < now then (Inl ''Cannot schedule meetings in the past'', w1)
                    else
                      (let graphClient = new_MicrosoftGraphClient cid secret tenant in
                       case createMeeting graphClient (execute_meetingData input) (user_id cfg) w1 of
                         (Inl e, c2, w2) \<Rightarrow> (Inl e, w2)
                       | (Inr meetingResult, c2, w2) \<Rightarrow>
                           (case meetingInfo meetingResult of
                              Inl e \<Rightarrow> (Inl e, w2)
                            | Inr info \<Rightarrow> (Inr (success_result input context w2 info), w2))))
             | _ \<Rightarrow>
                 (Inl (''Invalid date format. Please use ISO format '' @
                       ''(e.g., 2025-09-03T14:30:00Z)''), w))
      | _ \<Rightarrow> (Inl missing_configuration, w))"

text \<open>The \<open>catch\<close> block of \<open>execute\<close>.\<close>

definition execute_catch :: "string \<Rightarrow> string" where
  "execute_catch msg =
     (let errorMessage =
            (if includes_str msg ''Authentication failed''
             then msg @ '' - Please verify your Microsoft Graph API credentials''
             else if includes_str msg ''Meeting creation failed''
             then msg @ '' - Please check if the user has required permissions''
             else msg)
      in ''Failed to create Teams meeting: '' @ errorMessage)"

definition execute ::
  "MeetingSchedulerInput \<Rightarrow> MeetingSchedulerConfig \<Rightarrow> execution_context \<Rightarrow> world
   \<Rightarrow> (string + jsval) \<times> world" where
  "execute input cfg context w =
     (case execute_try input cfg context w of
        (Inl e, w') \<Rightarrow> (Inl (execute_catch e), w')
      | (Inr v, w') \<Rightarrow> (Inr v, w'))"


section \<open>The Express server: \<open>POST /api/execute\<close>\<close>

text \<open>
  The JSON body of the request. A required string that the body lacks is the empty
  string here: the handler tests both with \<open>!\<close> before any other use.
\<close>

record request_body =
  input_data :: "MeetingSchedulerInput option"
  config :: "MeetingSchedulerConfig option"

record process_env =
  CLIENT_ID :: "string option"
  CLIENT_SECRET :: "string option"
  TENANT_ID :: "string option"
  USER_ID :: "string option"

definition generateId :: "world \<Rightarrow> string \<times> world" where
  "generateId w =
     (let (now, w1) = Date_now w in (''exec_'' @ show_int now @ ''_'' @ random36 w, w1))"

text \<open>\<open>new Date().toISOString()\<close>.\<close>

definition timestamp_now :: "world \<Rightarrow> jsval \<times> world" where
  "timestamp_now w = (let (now, w1) = Date_now w in (JStr (toISOString w now), w1))"

text \<open>\<open>res.status(code).json(...)\<close> for the error bodies without details.\<close>

definition error_response :: "nat \<Rightarrow> string \<Rightarrow> string \<Rightarrow> string \<Rightarrow> world \<Rightarrow> (nat \<times> jsval) \<times> world" where
  "error_response code exec_id error_code error_message w =
     (let (ts, w1) = timestamp_now w in
      ((code, JObj
         [(''execution_id'', JStr exec_id),
          (''status'', JStr ''error''),
          (''error_code'', JStr error_code),
          (''error_message'', JStr error_message),
          (''timestamp'', ts)]), w1))"

definition configuration_error ::
  "string \<Rightarrow> string option \<Rightarrow> string option \<Rightarrow> string option \<Rightarrow> world \<Rightarrow> (nat \<times> jsval) \<times> world" where
  "configuration_error exec_id clientId' clientSecret' tenantId' w =
     (let (ts, w1) = timestamp_now w in
      ((400, JObj
         [(''execution_id'', JStr exec_id),
          (''status'', JStr ''error''),
          (''error_code'', JStr ''CONFIGURATION_ERROR''),
          (''error_message'', JStr ''Missing required Microsoft Graph API configuration''),
          (''error_details'', JObj
             [(''missingKeys'', JArr
                 ((if \<not> truthy clientId' then [JStr ''client_id''] else []) @
                  (if \<not> truthy clientSecret' then [JStr ''client_secret''] else []) @
                  (if \<not> truthy tenantId' then [JStr ''tenant_id''] else [])))]),
          (''timestamp'', ts)]), w1))"

text \<open>The success body; \<open>meetingResult.id\<close> throws when the provider's body is \<open>null\<close>.\<close>

definition success_response ::
  "string \<Rightarrow> MeetingSchedulerInput \<Rightarrow> jsval \<Rightarrow> world \<Rightarrow> (string + (nat \<times> jsval)) \<times> world" where
  "success_response exec_id input meetingResult w =
     (case member meetingResult ''id'' of
        Inl e \<Rightarrow> (Inl e, w)
      | Inr meeting_id \<Rightarrow>
          (let (ts, w1) = timestamp_now w in
           (Inr (200, JObj
              [(''execution_id'', JStr exec_id),
               (''status'', JStr ''success''),
               (''data'', JObj
                  [(''meeting'', JObj
                      [(''meeting_id'', meeting_id),
                       (''join_url'', own_property meetingResult ''joinUrl''),
                       (''subject'', own_property meetingResult ''subject''),
                       (''start_time'', own_property meetingResult ''startDateTime''),
                       (''end_time'', own_property meetingResult ''endDateTime'')]),
                   (''summary'',
                      JStr (''Successfully created Teams meeting '' @ [CHR 0x22] @
                            subject input @ [CHR 0x22]))]),
               (''timestamp'', ts)]), w1)))"

text \<open>
  The handler: the HTTP status and the JSON body it answers with. Validation answers
  400 itself; whatever is thrown once the meeting is being created is answered by the
  \<open>catch\<close> with 500 and \<open>INTERNAL_ERROR\<close>.
\<close>

definition api_execute ::
  "request_body \<Rightarrow> process_env \<Rightarrow> world \<Rightarrow> (nat \<times> jsval) \<times> world" where
  "api_execute body env w =
     (let (exec_id, w0) = generateId w;
          clientId' = or_else (Option.bind (config body) client_id) (CLIENT_ID env);
          clientSecret' = or_else (Option.bind (config body) client_secret) (CLIENT_SECRET env);
          tenantId' = or_else (Option.bind (config body) tenant_id) (TENANT_ID env);
          userId = or_else (Option.bind (config body) user_id) (USER_ID env)
      in
      case (clientId', clientSecret', tenantId') of
        (Some cid, Some secret, Some tenant) \<Rightarrow>
          if cid = [] \<or> secret = [] \<or> tenant = []
          then configuration_error exec_id clientId' clientSecret' tenantId' w0
          else
            (case input_data body of
               None \<Rightarrow>
                 error_response 400 exec_id ''VALIDATION_ERROR''
                   ''Missing required input fields'' w0
             | Some input \<Rightarrow>
                 if subject input = [] \<or> startDateTime input = [] \<or> endDateTime input = []
                 then error_response 400 exec_id ''VALIDATION_ERROR''
                        ''Missing required input fields'' w0
                 else
                   (case (Date_parse w0 (startDateTime input), Date_parse w0 (endDateTime input)) of
                      (Some startTime, Some endTime) \<Rightarrow>
                        if endTime \<le> startTime
                        then error_response 400 exec_id ''VALIDATION_ERROR''
                               ''End time must be after start time'' w0
                        else
                          (let graphClient = new_MicrosoftGraphClient cid secret tenant in
                           case createMeeting graphClient input userId w0 of
                             (Inl e, c2, w2) \<Rightarrow>
                               error_response 500 exec_id ''INTERNAL_ERROR'' e w2
                           | (Inr meetingResult, c2, w2) \<Rightarrow>
                               (case success_response exec_id input meetingResult w2 of
                                  (Inl e, w3) \<Rightarrow>
                                    error_response 500 exec_id ''INTERNAL_ERROR'' e w3
                                | (Inr answer, w3) \<Rightarrow> (answer, w3)))
                    | _ \<Rightarrow>
                        error_response 400 exec_id ''VALIDATION_ERROR''
                          ''Invalid date format. Please use ISO format'' w0))
      | _ \<Rightarrow> configuration_error exec_id clientId' clientSecret' tenantId' w0)"


section \<open>Observations and scenarios\<close>

text \<open>The most recent reading of the clock.\<close>

definition last_reading :: "world \<Rightarrow> int" where
  "last_reading w = clock w (reads w - 1)"

text \<open>
  A provider that issues the token \<open>tok\<close> for an hour and creates the meeting; its
  response has no \<open>audioConferencing\<close> and an organizer without \<open>user\<close>.
\<close>

definition issued :: token_data where
  "issued = \<lparr>access_token = Some ''tok'', expires_in = Num 3600\<rparr>"

definition token_issued :: "token_data response" where
  "token_issued = \<lparr>status = 200, body_text = Inr ''token'', body_json = Inr issued\<rparr>"

definition token_once :: "nat \<Rightarrow> request \<Rightarrow> token_data reply" where
  "token_once n rq = Responded token_issued"

definition created :: jsval where
  "created =
     JObj [(''id'', JStr ''m1''),
           (''joinUrl'', JStr ''https://teams.microsoft.com/l/m1''),
           (''subject'', JStr ''Standup''),
           (''organizer'', JObj [])]"

definition graph_created :: "nat \<Rightarrow> request \<Rightarrow> jsval reply" where
  "graph_created n rq =
     Responded \<lparr>status = 201, body_text = Inr ''meeting'', body_json = Inr created\<rparr>"

text \<open>The dates of the scenarios, as \<open>Date\<close> parses them (milliseconds since the epoch).\<close>

definition parse_test :: "string \<Rightarrow> int option" where
  "parse_test s =
     (if s = ''2030-01-01T09:00:00Z'' then Some 1893488400000
      else if s = ''2030-01-01T09:30:00Z'' then Some 1893490200000
      else if s = ''2020-01-01T09:00:00Z'' then Some 1577869200000
      else if s = ''2020-01-01T09:30:00Z'' then Some 1577871000000
      else None)"

text \<open>
  A world whose clock reads 2026-11-02T00:00:00Z, one millisecond later, and from the
  third reading on an hour later. Its timestamps are printed as their milliseconds.
\<close>

definition world0 :: world where
  "world0 =
     \<lparr>clock = (\<lambda>k. if k < 2 then 1793577600000 + int k else 1793581200000),
      reads = 0, token_endpoint = token_once, graph_endpoint = graph_created, sent = [],
      Date_parse = parse_test, toISOString = show_int, random36 = ''k3x9q''\<rparr>"

definition standup :: MeetingSchedulerInput where
  "standup =
     \<lparr>subject = ''Standup'', startDateTime = ''2030-01-01T09:00:00Z'',
      endDateTime = ''2030-01-01T09:30:00Z'', attendees = None, description = None,
      allowCamera = None, allowMicrophone = None, allowRecording = None\<rparr>"

definition client0 :: client where
  "client0 = new_MicrosoftGraphClient ''app'' ''secret'' ''tenant''"

text \<open>A provider that refuses the credentials.\<close>

definition invalid_client :: "token_data response" where
  "invalid_client =
     \<lparr>status = 401, body_text = Inr ''invalid_client'',
      body_json = Inl ''Unexpected token i in JSON at position 0''\<rparr>"

definition token_denied :: "nat \<Rightarrow> request \<Rightarrow> token_data reply" where
  "token_denied n rq = Responded invalid_client"

definition world_denied :: world where
  "world_denied = world0\<lparr>token_endpoint := token_denied\<rparr>"

text \<open>Configurations, a context and request bodies for the scenarios.\<close>

definition config0 :: MeetingSchedulerConfig where
  "config0 =
     \<lparr>client_id = Some ''app'', client_secret = Some ''secret'', tenant_id = Some ''tenant'',
      user_id = None\<rparr>"

definition context0 :: execution_context where
  "context0 = \<lparr>executionId = ''exec_1'', timestamp = 1793577600000\<rparr>"

definition env0 :: process_env where
  "env0 = \<lparr>CLIENT_ID = None, CLIENT_SECRET = None, TENANT_ID = None, USER_ID = None\<rparr>"

definition body_of :: "MeetingSchedulerInput \<Rightarrow> request_body" where
  "body_of input = \<lparr>input_data = Some input, config = Some config0\<rparr>"

text \<open>
  The stand-up with a description, the camera refused and recording allowed; the
  stand-up with its end equal to its start, the same without a subject, and a stand-up
  of the year 2020.
\<close>

definition briefing :: MeetingSchedulerInput where
  "briefing =
     standup\<lparr>description := Some ''Daily sync'', allowCamera := Some False,
             allowRecording := Some True\<rparr>"

definition no_duration :: MeetingSchedulerInput where
  "no_duration = standup\<lparr>endDateTime := ''2030-01-01T09:00:00Z''\<rparr>"

definition untitled :: MeetingSchedulerInput where
  "untitled = no_duration\<lparr>subject := []\<rparr>"

definition past_standup :: MeetingSchedulerInput where
  "past_standup =
     standup\<lparr>startDateTime := ''2020-01-01T09:00:00Z'', endDateTime := ''2020-01-01T09:30:00Z''\<rparr>"

section \<open>Properties of the client\<close>

lemmas scenario_defs =
  world0_def client0_def standup_def token_once_def token_issued_def issued_def
  graph_created_def created_def parse_test_def new_MicrosoftGraphClient_def

lemmas client_defs =
  createMeeting_def authenticate_def exchange_def fetch_token_def fetch_graph_def Date_now_def
  ok_def tokenUrl_def params_def endpoint_def meetingPayload_def authenticate_catch_def
  createMeeting_catch_def token_requests_def number_minus_def round_double_def exact_def

lemmas tool_defs =
  execute_def execute_try_def execute_meetingData_def meetingInfo_def member_def
  optional_member_def config0_def context0_def

lemmas express_defs =
  api_execute_def generateId_def timestamp_now_def error_response_def configuration_error_def
  success_response_def or_else_def body_of_def env0_def show_int_def

lemma exchange_sent:
  "exchange c w = (r, c', w') \<Longrightarrow> sent w' = sent w @ [Form_post (tokenUrl c) (params c)]"
  by (auto simp: exchange_def fetch_token_def Date_now_def
           split: reply.splits sum.splits if_splits prod.splits)

lemma exchange_frame:
  "exchange c w = (r, c', w') \<Longrightarrow>
     clock w' = clock w \<and> token_endpoint w' = token_endpoint w \<and>
     graph_endpoint w' = graph_endpoint w \<and> Date_parse w' = Date_parse w \<and>
     toISOString w' = toISOString w \<and> random36 w' = random36 w"
  by (auto simp: exchange_def fetch_token_def Date_now_def
           split: reply.splits sum.splits if_splits prod.splits)

lemma exchange_success:
  assumes "token_endpoint w (length (sent w)) (Form_post (tokenUrl c) (params c)) = Responded r"
    and "ok r" and "body_json r = Inr data"
  shows "exchange c w =
           (Inr (),
            c\<lparr>accessToken := access_token data,
              tokenExpiry :=
                number_plus (Num (clock w (reads w)))
                  (number_times (number_minus (expires_in data) (Num 60)) (Num 1000))\<rparr>,
            w\<lparr>sent := sent w @ [Form_post (tokenUrl c) (params c)], reads := Suc (reads w)\<rparr>)"
  using assms by (simp add: exchange_def fetch_token_def Date_now_def)

lemma round_double_exact: "exact n \<Longrightarrow> round_double n = Num n"
  by (simp add: round_double_def)

text \<open>Where every intermediate result is exact, the stored expiry is the exact one.\<close>

lemma expiry_exact:
  assumes "exact (ttl - 60)" and "exact ((ttl - 60) * 1000)"
    and "exact (now + (ttl - 60) * 1000)"
  shows "number_plus (Num now) (number_times (number_minus (Num ttl) (Num 60)) (Num 1000)) =
           Num (now + (ttl - 60) * 1000)"
  using assms by (simp add: number_minus_def round_double_exact)

text \<open>Above \<open>2^53\<close> the sum is rounded: an odd number of that size is no double.\<close>

lemma round_double_above: "round_double 9008992832340001 = Num 9008992832340000"
  apply (simp add: round_double_def exact_def)
  apply (simp add: bit_length.simps Let_def)
  done

lemma authenticate_hit:
  "truthy (accessToken c) \<Longrightarrow> less_number (clock w (reads w)) (tokenExpiry c) \<Longrightarrow>
   authenticate c w = (Inr (), c, w\<lparr>reads := Suc (reads w)\<rparr>)"
  by (simp add: authenticate_def Date_now_def)

lemma authenticate_miss:
  "\<not> (truthy (accessToken c) \<and> less_number (clock w (reads w)) (tokenExpiry c)) \<Longrightarrow>
   authenticate c w =
     exchange c (if truthy (accessToken c) then w\<lparr>reads := Suc (reads w)\<rparr> else w)"
  by (auto simp add: authenticate_def Date_now_def)

lemma authenticate_miss_requests:
  assumes "\<not> (truthy (accessToken c) \<and> less_number (clock w (reads w)) (tokenExpiry c))"
    and "authenticate c w = (r, c', w')"
  shows "sent w' = sent w @ [Form_post (tokenUrl c) (params c)]"
  using assms by (auto simp: authenticate_miss dest!: exchange_sent split: if_splits)

lemma createMeeting_authenticate:
  assumes "authenticate c w = (ra, c1, w1)" and "createMeeting c d u w = (r, c', w')"
  shows "c' = c1 \<and> clock w' = clock w1 \<and> reads w' = reads w1 \<and>
         token_endpoint w' = token_endpoint w1 \<and> graph_endpoint w' = graph_endpoint w1 \<and>
         token_requests w' = token_requests w1"
  using assms
  by (auto simp: createMeeting_def fetch_graph_def token_requests_def
           split: reply.splits sum.splits if_splits prod.splits)


section \<open>The token cache\<close>

text \<open>
  Claim C1. When \<open>authenticate\<close> is called on a client that holds a token, at a time
  before the stored expiry, it returns at once: no request is sent and the client is as
  it was (the world differs by the one reading of the clock). Hence, for three calls
  of \<open>createMeeting\<close> in a row on one client that starts with no valid token, where
  the first leaves a token in the cache, the second checks the clock before the stored
  expiry and the third at or after it: the first two send one credential-exchange
  request between them, the second leaves the cached token alone, and the third sends
  exactly one more.
\<close>

theorem token_cache:
  assumes "createMeeting c0 d1 u1 w0 = (r1, c1, w1)"
    and "createMeeting c1 d2 u2 w1 = (r2, c2, w2)"
    and "createMeeting c2 d3 u3 w2 = (r3, c3, w3)"
    and "\<not> (truthy (accessToken c0) \<and> less_number (clock w0 (reads w0)) (tokenExpiry c0))"
    and "truthy (accessToken c1)"
    and "less_number (clock w1 (reads w1)) (tokenExpiry c1)"
    and "\<not> less_number (clock w2 (reads w2)) (tokenExpiry c2)"
  shows "(truthy (accessToken c) \<and> less_number (clock w (reads w)) (tokenExpiry c) \<longrightarrow>
            authenticate c w = (Inr (), c, w\<lparr>reads := Suc (reads w)\<rparr>))
         \<and> authenticate c1 w1 = (Inr (), c1, w1\<lparr>reads := Suc (reads w1)\<rparr>)
         \<and> c2 = c1
         \<and> token_requests w1 = token_requests w0 + 1
         \<and> token_requests w2 = token_requests w0 + 1
         \<and> token_requests w3 = token_requests w0 + 2"
proof -
  obtain ra ca wa where a1: "authenticate c0 w0 = (ra, ca, wa)"
    by (metis prod_cases3)
  have s1: "sent wa = sent w0 @ [Form_post (tokenUrl c0) (params c0)]"
    using authenticate_miss_requests [OF assms(4) a1] .
  have t1: "token_requests w1 = token_requests w0 + 1"
    using createMeeting_authenticate [OF a1 assms(1)] s1 by (simp add: token_requests_def)
  have hit: "authenticate c1 w1 = (Inr (), c1, w1\<lparr>reads := Suc (reads w1)\<rparr>)"
    using assms(5,6) by (rule authenticate_hit)
  have second: "c2 = c1 \<and> token_requests w2 = token_requests w1"
    using createMeeting_authenticate [OF hit assms(2)] by (simp add: token_requests_def)
  obtain rb cb wb where a3: "authenticate c2 w2 = (rb, cb, wb)"
    by (metis prod_cases3)
  have s3: "sent wb = sent w2 @ [Form_post (tokenUrl c2) (params c2)]"
    using authenticate_miss_requests [OF _ a3] assms(7) by simp
  have t3: "token_requests w3 = token_requests w2 + 1"
    using createMeeting_authenticate [OF a3 assms(3)] s3 by (simp add: token_requests_def)
  show ?thesis
    using t1 hit second t3 by (simp add: authenticate_hit)
qed

theorem token_cache_witness:
  "let (r1, c1, w1) = createMeeting client0 standup None world0;
       (r2, c2, w2) = createMeeting c1 standup None w1;
       (r3, c3, w3) = createMeeting c2 standup None w2
   in \<not> truthy (accessToken client0) \<and> truthy (accessToken c1) \<and>
      less_number (clock w1 (reads w1)) (tokenExpiry c1) \<and>
      \<not> less_number (clock w2 (reads w2)) (tokenExpiry c2) \<and>
      authenticate c1 w1 = (Inr (), c1, w1\<lparr>reads := Suc (reads w1)\<rparr>) \<and>
      c2 = c1 \<and> token_requests w1 = 1 \<and> token_requests w2 = 1 \<and> token_requests w3 = 2"
proof -
  obtain r1 c1 w1 where e1: "createMeeting client0 standup None world0 = (r1, c1, w1)"
    by (metis prod_cases3)
  obtain r2 c2 w2 where e2: "createMeeting c1 standup None w1 = (r2, c2, w2)"
    by (metis prod_cases3)
  obtain r3 c3 w3 where e3: "createMeeting c2 standup None w2 = (r3, c3, w3)"
    by (metis prod_cases3)
  have h0: "\<not> (truthy (accessToken client0) \<and>
                 less_number (clock world0 (reads world0)) (tokenExpiry client0))"
    "token_requests world0 = 0" "\<not> truthy (accessToken client0)"
    by (simp_all add: scenario_defs token_requests_def)
  have v1: "accessToken c1 = Some ''tok''" "tokenExpiry c1 = Num 1793581140000"
    "reads w1 = 1" "clock w1 = clock world0"
    using e1 by (auto simp add: scenario_defs client_defs)
  have h1: "truthy (accessToken c1)" "less_number (clock w1 (reads w1)) (tokenExpiry c1)"
    by (simp_all add: v1) (simp add: world0_def)
  have v2: "reads w2 = 2" "clock w2 = clock world0" "tokenExpiry c2 = Num 1793581140000"
    using createMeeting_authenticate [OF authenticate_hit [OF h1] e2] v1 by simp_all
  have h2: "\<not> less_number (clock w2 (reads w2)) (tokenExpiry c2)"
    by (simp add: v2) (simp add: world0_def)
  note cache = token_cache [OF e1 e2 e3 h0(1) h1 h2, of client0 world0]
  have e3': "createMeeting c1 standup None w2 = (r3, c3, w3)"
    using e3 cache by simp
  show ?thesis
    using cache h0 h1 h2 by (simp add: e1 e2 e3')
qed

text \<open>
  Claim C6. When \<open>authenticate\<close> exchanges the credentials (no token cached, or the
  clock not before the stored expiry) and the token endpoint answers with success and a
  time-to-live of \<open>ttl\<close> seconds, the stored expiry is the reading of the clock taken
  when the answer is stored plus \<open>(ttl - 60)\<close> seconds, in milliseconds: sixty seconds
  before the token's declared end. The cached token is the one of the answer. The
  equation is one of integers, so it is stated where the double arithmetic of the
  program is exact: the time-to-live, the reading of the clock, the difference, the
  product and the sum are at most \<open>2^53\<close> in absolute value (beyond that the stored
  expiry is the rounded sum, as \<open>exchange_success\<close> gives it).
\<close>

theorem token_expiry_margin:
  assumes "\<not> (truthy (accessToken c) \<and> less_number (clock w (reads w)) (tokenExpiry c))"
    and "token_endpoint w (length (sent w)) (Form_post (tokenUrl c) (params c)) = Responded r"
    and "ok r" and "body_json r = Inr data" and "expires_in data = Num ttl"
    and "authenticate c w = (res, c', w')"
    and "exact (ttl - 60)" and "exact ((ttl - 60) * 1000)"
    and "exact (last_reading w' + (ttl - 60) * 1000)"
    and "exact ttl" and "exact (last_reading w')"
  shows "res = Inr () \<and> accessToken c' = access_token data \<and>
         tokenExpiry c' = Num (last_reading w' + (ttl - 60) * 1000)"
proof (cases "truthy (accessToken c)")
  case True
  let ?w = "w\<lparr>reads := Suc (reads w)\<rparr>"
  have "authenticate c w = exchange c ?w"
    using assms(1) True by (simp add: authenticate_miss)
  moreover have "token_endpoint ?w (length (sent ?w)) (Form_post (tokenUrl c) (params c)) = Responded r"
    using assms(2) by simp
  ultimately have "res = Inr () \<and> accessToken c' = access_token data \<and>
      last_reading w' = clock w (Suc (reads w)) \<and>
      tokenExpiry c' = number_plus (Num (clock w (Suc (reads w))))
                         (number_times (number_minus (Num ttl) (Num 60)) (Num 1000))"
    using exchange_success [OF _ assms(3,4), of ?w c] assms(5,6)
    by (auto simp add: last_reading_def)
  then show ?thesis
    using expiry_exact [OF assms(7,8), of "last_reading w'"] assms(9) by simp
next
  case False
  then have "authenticate c w = exchange c w"
    by (simp add: authenticate_def)
  then have "res = Inr () \<and> accessToken c' = access_token data \<and>
      last_reading w' = clock w (reads w) \<and>
      tokenExpiry c' = number_plus (Num (clock w (reads w)))
                         (number_times (number_minus (Num ttl) (Num 60)) (Num 1000))"
    using exchange_success [OF assms(2,3,4)] assms(5,6)
    by (auto simp add: last_reading_def)
  then show ?thesis
    using expiry_exact [OF assms(7,8), of "last_reading w'"] assms(9) by simp
qed

theorem token_expiry_margin_witness:
  "authenticate client0 world0 =
     (Inr (),
      client0\<lparr>accessToken := Some ''tok'',
              tokenExpiry := Num (1793577600000 + (3600 - 60) * 1000)\<rparr>,
      world0\<lparr>sent := [Form_post (tokenUrl client0) (params client0)], reads := 1\<rparr>)"
proof -
  obtain res c' w' where a: "authenticate client0 world0 = (res, c', w')"
    by (metis prod_cases3)
  have v: "c' = client0\<lparr>accessToken := Some ''tok'', tokenExpiry := Num 1793581140000\<rparr>"
      "w' = world0\<lparr>sent := [Form_post (tokenUrl client0) (params client0)], reads := 1\<rparr>"
    using a by (auto simp add: scenario_defs client_defs)
  have p: "\<not> (truthy (accessToken client0) \<and>
                less_number (clock world0 (reads world0)) (tokenExpiry client0))"
      "token_endpoint world0 (length (sent world0))
         (Form_post (tokenUrl client0) (params client0)) = Responded token_issued"
      "ok token_issued" "body_json token_issued = Inr issued" "expires_in issued = Num 3600"
    by (simp_all add: world0_def client0_def new_MicrosoftGraphClient_def token_once_def
          token_issued_def issued_def ok_def)
  have x: "exact (3600 - 60)" "exact ((3600 - 60) * 1000)"
      "exact (last_reading w' + (3600 - 60) * 1000)" "exact 3600" "exact (last_reading w')"
    by (simp_all add: exact_def last_reading_def v world0_def)
  show ?thesis
    using token_expiry_margin [OF p a x] a v by (simp add: issued_def)
qed


section \<open>Failure of the credential exchange\<close>

text \<open>
  When \<open>createMeeting\<close> has to exchange the credentials and the token endpoint
  answers with a status outside 200..299, the call fails with the Error thrown by
  \<open>authenticate\<close>, which \<open>createMeeting\<close> passes on unchanged and whose message
  carries the marker \<open>Authentication failed\<close> followed by the status code and the
  body that the provider returned. The token request is the only request of the call:
  it is sent once, and the meeting-creation endpoint is not called. The Error is a
  plain one: the class gives it no kind or code.
\<close>

theorem authentication_failure:
  assumes "\<not> (truthy (accessToken c) \<and> less_number (clock w (reads w)) (tokenExpiry c))"
    and "token_endpoint w (length (sent w)) (Form_post (tokenUrl c) (params c)) = Responded r"
    and "\<not> ok r" and "body_text r = Inr errorText"
    and "createMeeting c meetingData userId w = (res, c', w')"
  shows "res = Inl (''Failed to authenticate with Microsoft Graph: Authentication failed: '' @
                    show_nat (status r) @ '' - '' @ errorText)
         \<and> sent w' = sent w @ [Form_post (tokenUrl c) (params c)]
         \<and> token_requests w' = token_requests w + 1
         \<and> meeting_requests w' = meeting_requests w
         \<and> c' = c"
  using assms
  by (auto simp add: createMeeting_def authenticate_def exchange_def fetch_token_def
        Date_now_def authenticate_catch_def token_requests_def meeting_requests_def
      split: if_splits)

theorem authentication_failure_witness:
  "createMeeting client0 standup None world_denied =
     (Inl ''Failed to authenticate with Microsoft Graph: Authentication failed: 401 - invalid_client'',
      client0,
      world_denied\<lparr>sent := [Form_post (tokenUrl client0) (params client0)]\<rparr>)"
proof -
  obtain res c' w' where a: "createMeeting client0 standup None world_denied = (res, c', w')"
    by (metis prod_cases3)
  have s: "show_nat 401 = ''401''"
    by (simp add: show_nat.simps)
  have w: "w' = world_denied\<lparr>sent := [Form_post (tokenUrl client0) (params client0)]\<rparr>"
    using a
    by (auto simp add: world_denied_def token_denied_def invalid_client_def scenario_defs
          client_defs)
  have p: "\<not> (truthy (accessToken client0) \<and>
                less_number (clock world_denied (reads world_denied)) (tokenExpiry client0))"
      "token_endpoint world_denied (length (sent world_denied))
         (Form_post (tokenUrl client0) (params client0)) = Responded invalid_client"
      "\<not> ok invalid_client" "body_text invalid_client = Inr ''invalid_client''"
    by (simp_all add: world_denied_def world0_def client0_def new_MicrosoftGraphClient_def
          token_denied_def invalid_client_def ok_def)
  show ?thesis
    using authentication_failure [OF p a] a w s by (simp add: invalid_client_def)
qed

text \<open>
  Seen from the caller of \<open>execute\<close>: the \<open>catch\<close> recognises the error by the text
  \<open>Authentication failed\<close>, appends a hint on the credentials and throws it again;
  the token request is still the only request sent.
\<close>

lemma execute_catch_authentication:
  "execute_catch (''Failed to authenticate with Microsoft Graph: Authentication failed: '' @ rest) =
     ''Failed to create Teams meeting: Failed to authenticate with Microsoft Graph: '' @
     ''Authentication failed: '' @ rest @
     '' - Please verify your Microsoft Graph API credentials''"
  by (simp add: execute_catch_def)

lemma execute_authentication_failure:
  assumes "client_id cfg = Some cid" and "client_secret cfg = Some secret"
    and "tenant_id cfg = Some tenant" and "cid \<noteq> []" and "secret \<noteq> []" and "tenant \<noteq> []"
    and "Date_parse w (startDateTime input) = Some startTime"
    and "Date_parse w (endDateTime input) = Some endTime"
    and "startTime < endTime" and "\<not> startTime < clock w (reads w)"
    and "token_endpoint w (length (sent w))
           (Form_post (tokenUrl (new_MicrosoftGraphClient cid secret tenant))
                      (params (new_MicrosoftGraphClient cid secret tenant))) = Responded r"
    and "\<not> ok r" and "body_text r = Inr errorText"
  shows "execute input cfg ctx w =
           (Inl (''Failed to create Teams meeting: Failed to authenticate with Microsoft Graph: '' @
                 ''Authentication failed: '' @ show_nat (status r) @ '' - '' @ errorText @
                 '' - Please verify your Microsoft Graph API credentials''),
            w\<lparr>reads := Suc (reads w),
              sent := sent w @ [Form_post (tokenUrl (new_MicrosoftGraphClient cid secret tenant))
                                          (params (new_MicrosoftGraphClient cid secret tenant))]\<rparr>)"
proof -
  let ?c = "new_MicrosoftGraphClient cid secret tenant"
  let ?w1 = "w\<lparr>reads := Suc (reads w)\<rparr>"
  obtain res c' w' where cm: "createMeeting ?c (execute_meetingData input) (user_id cfg) ?w1 = (res, c', w')"
    by (metis prod_cases3)
  have miss: "\<not> (truthy (accessToken ?c) \<and> less_number (clock ?w1 (reads ?w1)) (tokenExpiry ?c))"
    by (simp add: new_MicrosoftGraphClient_def)
  have tok: "token_endpoint ?w1 (length (sent ?w1)) (Form_post (tokenUrl ?c) (params ?c)) = Responded r"
    using assms(11) by simp
  have f: "res = Inl (''Failed to authenticate with Microsoft Graph: Authentication failed: '' @
                    show_nat (status r) @ '' - '' @ errorText)"
      "w' = ?w1\<lparr>sent := sent w @ [Form_post (tokenUrl ?c) (params ?c)]\<rparr>"
    using cm miss tok assms(12,13)
    by (auto simp add: createMeeting_def authenticate_def exchange_def fetch_token_def
        authenticate_catch_def new_MicrosoftGraphClient_def)
  define m where "m = ''Failed to authenticate with Microsoft Graph: Authentication failed: '' @
                    show_nat (status r) @ '' - '' @ errorText"
  have t: "execute_try input cfg ctx w = (Inl m, w')"
    using assms(1-10) cm f(1) unfolding m_def [symmetric]
    by (simp add: execute_try_def Date_now_def)
  have "execute input cfg ctx w = (Inl (execute_catch m), w')"
    using t by (simp add: execute_def)
  also have "execute_catch m =
      ''Failed to create Teams meeting: Failed to authenticate with Microsoft Graph: '' @
      ''Authentication failed: '' @ show_nat (status r) @ '' - '' @ errorText @
      '' - Please verify your Microsoft Graph API credentials''"
    unfolding m_def by (simp only: execute_catch_authentication append_assoc)
  finally show ?thesis
    using f(2) by simp
qed



text \<open>
  Claim C2. The kind of an error is assigned in one place, the \<open>catch\<close> of the
  Express handler, and it assigns \<open>INTERNAL_ERROR\<close> to whatever is thrown. For the
  stand-up, with the token endpoint answering 401 \<open>invalid_client\<close>, the handler
  answers 500 with the error code \<open>INTERNAL_ERROR\<close>, where the README documents
  \<open>AUTHENTICATION_ERROR\<close> for this failure of \<open>POST /api/execute\<close>. The rest is as
  documented: the message carries the status code and the provider's body, the token
  request was sent once and the meeting-creation endpoint was not called.
\<close>

theorem authentication_failure_reported_internal:
  "api_execute (body_of standup) env0 world_denied =
     ((500, JObj
        [(''execution_id'', JStr ''exec_1793577600000_k3x9q''),
         (''status'', JStr ''error''),
         (''error_code'', JStr ''INTERNAL_ERROR''),
         (''error_message'',
            JStr ''Failed to authenticate with Microsoft Graph: Authentication failed: 401 - invalid_client''),
         (''timestamp'', JStr ''1793577600001'')]),
      world_denied\<lparr>reads := 2, sent := [Form_post (tokenUrl client0) (params client0)]\<rparr>)"
  by (simp add: express_defs tool_defs scenario_defs client_defs show_nat.simps
        world_denied_def token_denied_def invalid_client_def)


section \<open>The result of \<open>execute\<close>\<close>

text \<open>
  Claim C8. Building \<open>meetingInfo\<close> from a provider response succeeds for every
  response body other than \<open>null\<close>, whatever fields it has or lacks. When the body has
  no \<open>audioConferencing\<close>, \<open>conference_id\<close> and \<open>dial_in_url\<close> are undefined; when
  it has no \<open>organizer\<close>, or the organizer no \<open>user\<close>, or the user no
  \<open>displayName\<close>, \<open>organizer\<close> is undefined.
\<close>

theorem normalizer_total:
  assumes "\<not> nullish meetingResult"
  shows "\<exists>info. meetingInfo meetingResult = Inr info
     \<and> (nullish (own_property meetingResult ''audioConferencing'') \<longrightarrow>
          own_property info ''conference_id'' = Undefined \<and>
          own_property info ''dial_in_url'' = Undefined)
     \<and> (nullish (own_property meetingResult ''organizer'') \<or>
        nullish (own_property (own_property meetingResult ''organizer'') ''user'') \<or>
        own_property (own_property (own_property meetingResult ''organizer'') ''user'')
          ''displayName'' = Undefined \<longrightarrow>
          own_property info ''organizer'' = Undefined)"
  using assms
  by (auto simp add: meetingInfo_def member_def optional_member_def)

theorem normalizer_total_witness:
  "\<not> nullish created \<and> nullish (own_property created ''audioConferencing'') \<and>
   nullish (own_property (own_property created ''organizer'') ''user'') \<and>
   (\<exists>info. meetingInfo created = Inr info \<and>
      own_property info ''conference_id'' = Undefined \<and>
      own_property info ''dial_in_url'' = Undefined \<and>
      own_property info ''organizer'' = Undefined)"
proof -
  have h: "\<not> nullish created" "nullish (own_property created ''audioConferencing'')"
    "nullish (own_property (own_property created ''organizer'') ''user'')"
    by (simp_all add: created_def)
  show ?thesis
    using normalizer_total [OF h(1)] h by auto
qed



lemma execute_catch_plain:
  "execute_catch ''End time must be after start time'' =
     ''Failed to create Teams meeting: End time must be after start time''"
  "execute_catch ''Cannot schedule meetings in the past'' =
     ''Failed to create Teams meeting: Cannot schedule meetings in the past''"
  by (simp_all add: execute_catch_def)

text \<open>
  Claim C7. In every successful result of \<open>execute\<close>, \<open>attendees_count\<close> is the
  length of the request's attendee list, and 0 when the request has none; it is a
  function of the request alone, whatever the provider answered. The instructions are
  three, and the last says that recording is enabled when the request's recording flag,
  with its default \<open>false\<close>, is true, and that recording is disabled otherwise.
\<close>

theorem derived_fields:
  assumes "execute input cfg ctx w = (Inr result, w')"
  shows "own_property (own_property result ''data'') ''attendees_count'' =
           JNum (case attendees input of None \<Rightarrow> 0 | Some xs \<Rightarrow> int (length xs))
         \<and> (\<exists>ins. own_property (own_property result ''data'') ''instructions'' = JArr ins \<and>
               length ins = 3 \<and>
               last ins = JStr (if nullish_coalesce (allowRecording input) False
                                then ''Recording is enabled for this meeting''
                                else ''Recording is disabled for this meeting''))"
proof -
  obtain info w2 where "result = success_result input ctx w2 info"
    using assms
    by (auto simp add: execute_def execute_try_def Let_def
        split: prod.splits option.splits sum.splits if_splits)
  then show ?thesis
    by (cases "allowRecording input") (auto simp add: success_result_def)
qed

lemma createMeeting_fresh:
  assumes "createMeeting (new_MicrosoftGraphClient cid secret tenant) d u w = (Inr v, c', w')"
  shows "\<exists>r data.
           token_endpoint w (length (sent w))
             (Form_post (tokenUrl (new_MicrosoftGraphClient cid secret tenant))
                        (params (new_MicrosoftGraphClient cid secret tenant))) = Responded r \<and>
           ok r \<and> body_json r = Inr data \<and>
           sent w' = sent w @
             [Form_post (tokenUrl (new_MicrosoftGraphClient cid secret tenant))
                        (params (new_MicrosoftGraphClient cid secret tenant)),
              Json_post (endpoint u) (access_token data) (meetingPayload d)]"
  using assms
  by (auto simp add: createMeeting_def authenticate_def exchange_def fetch_token_def
        fetch_graph_def Date_now_def new_MicrosoftGraphClient_def tokenUrl_def params_def
      split: prod.splits reply.splits sum.splits if_splits)

lemma execute_standup:
  "execute standup config0 context0 world0 =
     (Inr (success_result standup context0 world0 (projr (meetingInfo created))),
      world0\<lparr>reads := 2,
             sent := [Form_post (tokenUrl client0) (params client0),
                      Json_post (endpoint None) (Some ''tok'') (meetingPayload standup)]\<rparr>)"
  by (simp add: tool_defs scenario_defs client_defs success_result_def)


theorem derived_fields_witness:
  "\<exists>result w'. execute standup config0 context0 world0 = (Inr result, w') \<and>
     own_property (own_property result ''data'') ''attendees_count'' = JNum 0 \<and>
     (\<exists>ins. own_property (own_property result ''data'') ''instructions'' = JArr ins \<and>
        length ins = 3 \<and> last ins = JStr ''Recording is disabled for this meeting'')"
  using derived_fields [OF execute_standup] execute_standup by (simp add: standup_def)

lemma api_execute_fresh:
  assumes "api_execute body env w = ((200, answer), w')"
  shows "\<exists>cid secret tenant input r data.
           or_else (Option.bind (config body) client_id) (CLIENT_ID env) = Some cid \<and>
           or_else (Option.bind (config body) client_secret) (CLIENT_SECRET env) = Some secret \<and>
           or_else (Option.bind (config body) tenant_id) (TENANT_ID env) = Some tenant \<and>
           input_data body = Some input \<and>
           token_endpoint w (length (sent w))
             (Form_post (tokenUrl (new_MicrosoftGraphClient cid secret tenant))
                        (params (new_MicrosoftGraphClient cid secret tenant))) = Responded r \<and>
           ok r \<and> body_json r = Inr data \<and>
           sent w' = sent w @
             [Form_post (tokenUrl (new_MicrosoftGraphClient cid secret tenant))
                        (params (new_MicrosoftGraphClient cid secret tenant)),
              Json_post (endpoint (or_else (Option.bind (config body) user_id) (USER_ID env)))
                        (access_token data) (meetingPayload input)]"
proof -
  let ?w0 = "w\<lparr>reads := Suc (reads w)\<rparr>"
  obtain cid secret tenant input v c2 w2 where
    k: "or_else (Option.bind (config body) client_id) (CLIENT_ID env) = Some cid"
       "or_else (Option.bind (config body) client_secret) (CLIENT_SECRET env) = Some secret"
       "or_else (Option.bind (config body) tenant_id) (TENANT_ID env) = Some tenant"
       "input_data body = Some input"
    and cm: "createMeeting (new_MicrosoftGraphClient cid secret tenant) input
               (or_else (Option.bind (config body) user_id) (USER_ID env)) ?w0 = (Inr v, c2, w2)"
    and s: "sent w' = sent w2"
    using assms
    by (auto simp add: api_execute_def generateId_def Date_now_def Let_def
          configuration_error_def error_response_def success_response_def timestamp_now_def
        split: prod.splits option.splits sum.splits if_splits)
  show ?thesis
    using createMeeting_fresh [OF cm] k s by auto
qed

lemma execute_fresh:
  assumes "execute input cfg ctx w = (Inr result, w')"
  shows "\<exists>cid secret tenant r data.
           client_id cfg = Some cid \<and> client_secret cfg = Some secret \<and>
           tenant_id cfg = Some tenant \<and>
           token_endpoint w (length (sent w))
             (Form_post (tokenUrl (new_MicrosoftGraphClient cid secret tenant))
                        (params (new_MicrosoftGraphClient cid secret tenant))) = Responded r \<and>
           ok r \<and> body_json r = Inr data \<and>
           sent w' = sent w @
             [Form_post (tokenUrl (new_MicrosoftGraphClient cid secret tenant))
                        (params (new_MicrosoftGraphClient cid secret tenant)),
              Json_post (endpoint (user_id cfg)) (access_token data)
                        (meetingPayload (execute_meetingData input))]"
proof -
  let ?w1 = "w\<lparr>reads := Suc (reads w)\<rparr>"
  obtain cid secret tenant v c2 where
    k: "client_id cfg = Some cid" "client_secret cfg = Some secret" "tenant_id cfg = Some tenant"
    and cm: "createMeeting (new_MicrosoftGraphClient cid secret tenant)
               (execute_meetingData input) (user_id cfg) ?w1 = (Inr v, c2, w')"
    using assms
    by (auto simp add: execute_def execute_try_def Date_now_def Let_def
        split: prod.splits option.splits sum.splits if_splits)
  show ?thesis
    using createMeeting_fresh [OF cm] k by auto
qed


lemma api_execute_standup:
  "api_execute (body_of standup) env0 world0 =
     ((200, JObj
        [(''execution_id'', JStr ''exec_1793577600000_k3x9q''),
         (''status'', JStr ''success''),
         (''data'', JObj
            [(''meeting'', JObj
                [(''meeting_id'', JStr ''m1''),
                 (''join_url'', JStr ''https://teams.microsoft.com/l/m1''),
                 (''subject'', JStr ''Standup''),
                 (''start_time'', Undefined),
                 (''end_time'', Undefined)]),
             (''summary'', JStr (''Successfully created Teams meeting '' @ [CHR 0x22] @
                                 ''Standup'' @ [CHR 0x22]))]),
         (''timestamp'', JStr ''1793581200000'')]),
      world0\<lparr>reads := 3,
             sent := [Form_post (tokenUrl client0) (params client0),
                      Json_post (endpoint None) (Some ''tok'') (meetingPayload standup)]\<rparr>)"
  by (simp add: express_defs tool_defs scenario_defs client_defs show_nat.simps)

text \<open>
  Claim C9. Neither \<open>execute\<close> nor the Express handler takes a client: each builds
  its own, whose cache is empty. So every successful invocation, of either, sends
  exactly two requests: its own credential exchange, answered with success, and then
  the meeting creation, which bears the token that this exchange returned. No token
  of an earlier invocation can be used; the only use of the cache is the second request
  of the same invocation.
\<close>

theorem fresh_client_per_invocation:
  "accessToken (new_MicrosoftGraphClient cid0 secret0 tenant0) = None
   \<and> (execute input cfg ctx w = (Inr result, w') \<longrightarrow>
        (\<exists>cid secret tenant r data.
           client_id cfg = Some cid \<and> client_secret cfg = Some secret \<and>
           tenant_id cfg = Some tenant \<and>
           token_endpoint w (length (sent w))
             (Form_post (tokenUrl (new_MicrosoftGraphClient cid secret tenant))
                        (params (new_MicrosoftGraphClient cid secret tenant))) = Responded r \<and>
           ok r \<and> body_json r = Inr data \<and>
           sent w' = sent w @
             [Form_post (tokenUrl (new_MicrosoftGraphClient cid secret tenant))
                        (params (new_MicrosoftGraphClient cid secret tenant)),
              Json_post (endpoint (user_id cfg)) (access_token data)
                        (meetingPayload (execute_meetingData input))]))
   \<and> (api_execute body env v = ((200, answer), v') \<longrightarrow>
        (\<exists>cid secret tenant input r data.
           or_else (Option.bind (config body) client_id) (CLIENT_ID env) = Some cid \<and>
           or_else (Option.bind (config body) client_secret) (CLIENT_SECRET env) = Some secret \<and>
           or_else (Option.bind (config body) tenant_id) (TENANT_ID env) = Some tenant \<and>
           input_data body = Some input \<and>
           token_endpoint v (length (sent v))
             (Form_post (tokenUrl (new_MicrosoftGraphClient cid secret tenant))
                        (params (new_MicrosoftGraphClient cid secret tenant))) = Responded r \<and>
           ok r \<and> body_json r = Inr data \<and>
           sent v' = sent v @
             [Form_post (tokenUrl (new_MicrosoftGraphClient cid secret tenant))
                        (params (new_MicrosoftGraphClient cid secret tenant)),
              Json_post (endpoint (or_else (Option.bind (config body) user_id) (USER_ID env)))
                        (access_token data) (meetingPayload input)]))"
  using execute_fresh [of input cfg ctx w result w'] api_execute_fresh [of body env v answer v']
  by (simp add: new_MicrosoftGraphClient_def)

theorem fresh_client_per_invocation_witness:
  "(\<exists>result w'. execute standup config0 context0 world0 = (Inr result, w') \<and>
      sent w' = [Form_post (tokenUrl client0) (params client0),
                 Json_post (endpoint None) (Some ''tok'') (meetingPayload standup)]) \<and>
   (\<exists>answer v'. api_execute (body_of standup) env0 world0 = ((200, answer), v') \<and>
      sent v' = [Form_post (tokenUrl client0) (params client0),
                 Json_post (endpoint None) (Some ''tok'') (meetingPayload standup)])"
  using fresh_client_per_invocation
          [of "''app''" "''secret''" "''tenant''" standup config0 context0 world0 _ _
              "body_of standup" env0 world0]
        execute_standup api_execute_standup
  by simp



section \<open>The provider payload\<close>





lemma createMeeting_sent:
  "sent (snd (snd (createMeeting c d u w))) =
     (case authenticate c w of
        (Inl e, c1, w1) \<Rightarrow> sent w1
      | (Inr x, c1, w1) \<Rightarrow>
          sent w1 @ [Json_post (endpoint u) (accessToken c1) (meetingPayload d)])"
  by (simp add: createMeeting_def fetch_graph_def
      split: prod.splits sum.splits reply.splits)

text \<open>
  Claim C5. The JSON body of the meeting request that \<open>createMeeting\<close> sends, once
  \<open>authenticate\<close> has succeeded, is \<open>meetingPayload\<close> of its argument, and so is the
  body of the second request of every successful \<open>execute\<close> and of every 200 answer
  of the Express handler. In that payload each permission flag is the
  caller's value when the caller gave one (an explicit \<open>false\<close> stays \<open>false\<close>) and
  otherwise its default: camera and microphone \<open>true\<close>, recording \<open>false\<close>. The
  description travels as \<open>externalId\<close>, and the key is left out when the description
  is absent (or empty); it is never sent as null. The chat flag is \<open>enabled\<close> and the
  presenter policy \<open>everyone\<close>. The object that \<open>execute\<close> hands to \<open>createMeeting\<close>
  gives the same payload as its input.
\<close>

theorem payload_flags:
  "map_of (meetingPayload d) ''allowAttendeeToEnableCamera'' =
     Some (JBool (case allowCamera d of None \<Rightarrow> True | Some b \<Rightarrow> b))
   \<and> map_of (meetingPayload d) ''allowAttendeeToEnableMic'' =
     Some (JBool (case allowMicrophone d of None \<Rightarrow> True | Some b \<Rightarrow> b))
   \<and> map_of (meetingPayload d) ''allowRecording'' =
     Some (JBool (case allowRecording d of None \<Rightarrow> False | Some b \<Rightarrow> b))
   \<and> map_of (meetingPayload d) ''externalId'' =
     (case description d of None \<Rightarrow> None
      | Some t \<Rightarrow> if t = [] then None else Some (JStr t))
   \<and> map_of (meetingPayload d) ''allowMeetingChat'' = Some (JStr ''enabled'')
   \<and> map_of (meetingPayload d) ''allowedPresenters'' = Some (JStr ''everyone'')
   \<and> meetingPayload (execute_meetingData d) = meetingPayload d
   \<and> sent (snd (snd (createMeeting c d u w))) =
       (case authenticate c w of
          (Inl e, c1, w1) \<Rightarrow> sent w1
        | (Inr x, c1, w1) \<Rightarrow>
            sent w1 @ [Json_post (endpoint u) (accessToken c1) (meetingPayload d)])
   \<and> (execute d cfg ctx w = (Inr result, w') \<longrightarrow>
        (\<exists>token_request bearer.
           sent w' = sent w @
             [token_request, Json_post (endpoint (user_id cfg)) bearer (meetingPayload d)]))
   \<and> (api_execute \<lparr>input_data = Some d, config = k\<rparr> env v = ((200, answer), v') \<longrightarrow>
        (\<exists>token_request bearer.
           sent v' = sent v @
             [token_request,
              Json_post (endpoint (or_else (Option.bind k user_id) (USER_ID env))) bearer
                        (meetingPayload d)]))"
proof -
  have flags: "map_of (meetingPayload d) ''allowAttendeeToEnableCamera'' =
     Some (JBool (case allowCamera d of None \<Rightarrow> True | Some b \<Rightarrow> b))
   \<and> map_of (meetingPayload d) ''allowAttendeeToEnableMic'' =
     Some (JBool (case allowMicrophone d of None \<Rightarrow> True | Some b \<Rightarrow> b))
   \<and> map_of (meetingPayload d) ''allowRecording'' =
     Some (JBool (case allowRecording d of None \<Rightarrow> False | Some b \<Rightarrow> b))
   \<and> map_of (meetingPayload d) ''externalId'' =
     (case description d of None \<Rightarrow> None
      | Some t \<Rightarrow> if t = [] then None else Some (JStr t))
   \<and> map_of (meetingPayload d) ''allowMeetingChat'' = Some (JStr ''enabled'')
   \<and> map_of (meetingPayload d) ''allowedPresenters'' = Some (JStr ''everyone'')"
    by (cases "description d"; cases "allowCamera d"; cases "allowMicrophone d";
        cases "allowRecording d")
       (simp_all add: meetingPayload_def)
  have same: "meetingPayload (execute_meetingData d) = meetingPayload d"
    by (cases "description d") (simp_all add: meetingPayload_def execute_meetingData_def)
  have tool: "execute d cfg ctx w = (Inr result, w') \<longrightarrow>
        (\<exists>token_request bearer.
           sent w' = sent w @
             [token_request, Json_post (endpoint (user_id cfg)) bearer (meetingPayload d)])"
    using execute_fresh [of d cfg ctx w result w'] same by auto
  have express: "api_execute \<lparr>input_data = Some d, config = k\<rparr> env v = ((200, answer), v') \<longrightarrow>
        (\<exists>token_request bearer.
           sent v' = sent v @
             [token_request,
              Json_post (endpoint (or_else (Option.bind k user_id) (USER_ID env))) bearer
                        (meetingPayload d)])"
    using api_execute_fresh [of "\<lparr>input_data = Some d, config = k\<rparr>" env v answer v'] by auto
  show ?thesis
    using flags same tool express createMeeting_sent [of c d u w] by blast
qed

lemma execute_briefing:
  "execute briefing config0 context0 world0 =
     (Inr (success_result briefing context0 world0 (projr (meetingInfo created))),
      world0\<lparr>reads := 2,
             sent := [Form_post (tokenUrl client0) (params client0),
                      Json_post (endpoint None) (Some ''tok'') (meetingPayload briefing)]\<rparr>)"
  by (simp add: tool_defs scenario_defs client_defs success_result_def briefing_def)

lemma api_execute_briefing:
  "\<exists>answer. api_execute \<lparr>input_data = Some briefing, config = Some config0\<rparr> env0 world0 =
     ((200, answer),
      world0\<lparr>reads := 3,
             sent := [Form_post (tokenUrl client0) (params client0),
                      Json_post (endpoint None) (Some ''tok'') (meetingPayload briefing)]\<rparr>)"
  by (simp add: express_defs tool_defs scenario_defs client_defs show_nat.simps briefing_def)

theorem payload_flags_witness:
  "(\<exists>result w'. execute briefing config0 context0 world0 = (Inr result, w') \<and>
      sent w' =
        [Form_post (tokenUrl client0) (params client0),
         Json_post ''https://graph.microsoft.com/v1.0/me/onlineMeetings'' (Some ''tok'')
           [(''startDateTime'', JStr ''2030-01-01T09:00:00Z''),
            (''endDateTime'', JStr ''2030-01-01T09:30:00Z''),
            (''subject'', JStr ''Standup''),
            (''externalId'', JStr ''Daily sync''),
            (''allowAttendeeToEnableCamera'', JBool False),
            (''allowAttendeeToEnableMic'', JBool True),
            (''allowRecording'', JBool True),
            (''allowMeetingChat'', JStr ''enabled''),
            (''allowedPresenters'', JStr ''everyone'')]]) \<and>
   (\<exists>answer v'. api_execute \<lparr>input_data = Some briefing, config = Some config0\<rparr> env0 world0 =
        ((200, answer), v') \<and>
      sent v' =
        [Form_post (tokenUrl client0) (params client0),
         Json_post ''https://graph.microsoft.com/v1.0/me/onlineMeetings'' (Some ''tok'')
           [(''startDateTime'', JStr ''2030-01-01T09:00:00Z''),
            (''endDateTime'', JStr ''2030-01-01T09:30:00Z''),
            (''subject'', JStr ''Standup''),
            (''externalId'', JStr ''Daily sync''),
            (''allowAttendeeToEnableCamera'', JBool False),
            (''allowAttendeeToEnableMic'', JBool True),
            (''allowRecording'', JBool True),
            (''allowMeetingChat'', JStr ''enabled''),
            (''allowedPresenters'', JStr ''everyone'')]])"
proof -
  have p: "meetingPayload briefing =
           [(''startDateTime'', JStr ''2030-01-01T09:00:00Z''),
            (''endDateTime'', JStr ''2030-01-01T09:30:00Z''),
            (''subject'', JStr ''Standup''),
            (''externalId'', JStr ''Daily sync''),
            (''allowAttendeeToEnableCamera'', JBool False),
            (''allowAttendeeToEnableMic'', JBool True),
            (''allowRecording'', JBool True),
            (''allowMeetingChat'', JStr ''enabled''),
            (''allowedPresenters'', JStr ''everyone'')]"
      "endpoint None = ''https://graph.microsoft.com/v1.0/me/onlineMeetings''"
    by (simp_all add: meetingPayload_def briefing_def standup_def endpoint_def)
  obtain answer where e: "api_execute \<lparr>input_data = Some briefing, config = Some config0\<rparr> env0 world0 =
     ((200, answer),
      world0\<lparr>reads := 3,
             sent := [Form_post (tokenUrl client0) (params client0),
                      Json_post (endpoint None) (Some ''tok'') (meetingPayload briefing)]\<rparr>)"
    using api_execute_briefing by blast
  show ?thesis
    using payload_flags [of briefing client0 None world0 config0 context0 _ _ "Some config0" env0 world0]
      execute_briefing e p
    by simp
qed



section \<open>Validation of the meeting times\<close>

lemma execute_try_end_not_after_start:
  assumes "Date_parse w (startDateTime input) = Some startTime"
    and "Date_parse w (endDateTime input) = Some endTime"
    and "endTime \<le> startTime"
  shows "execute_try input cfg ctx w =
           (Inl (if truthy (client_id cfg) \<and> truthy (client_secret cfg) \<and> truthy (tenant_id cfg)
                 then ''End time must be after start time'' else missing_configuration), w)"
  using assms
  by (cases "client_id cfg"; cases "client_secret cfg"; cases "tenant_id cfg")
     (simp_all add: execute_try_def)

lemma api_execute_end_not_after_start:
  assumes "Date_parse w (startDateTime input) = Some startTime"
    and "Date_parse w (endDateTime input) = Some endTime"
    and "endTime \<le> startTime"
  shows "\<exists>answer. api_execute \<lparr>input_data = Some input, config = k\<rparr> env w =
           ((400, answer), w\<lparr>reads := Suc (Suc (reads w))\<rparr>)"
  using assms
  by (auto simp add: api_execute_def generateId_def Date_now_def Let_def
        configuration_error_def error_response_def timestamp_now_def
      split: prod.splits option.splits sum.splits if_splits)

lemma api_execute_validation_error:
  assumes "Date_parse w (startDateTime input) = Some startTime"
    and "Date_parse w (endDateTime input) = Some endTime"
    and "endTime \<le> startTime"
    and "truthy (or_else (Option.bind k client_id) (CLIENT_ID env))"
    and "truthy (or_else (Option.bind k client_secret) (CLIENT_SECRET env))"
    and "truthy (or_else (Option.bind k tenant_id) (TENANT_ID env))"
    and "subject input \<noteq> []" and "startDateTime input \<noteq> []" and "endDateTime input \<noteq> []"
  shows "api_execute \<lparr>input_data = Some input, config = k\<rparr> env w =
           ((400, JObj
              [(''execution_id'',
                  JStr (''exec_'' @ show_int (clock w (reads w)) @ ''_'' @ random36 w)),
               (''status'', JStr ''error''),
               (''error_code'', JStr ''VALIDATION_ERROR''),
               (''error_message'', JStr ''End time must be after start time''),
               (''timestamp'', JStr (toISOString w (clock w (Suc (reads w)))))]),
            w\<lparr>reads := Suc (Suc (reads w))\<rparr>)"
  using assms
  by (cases "or_else (Option.bind k client_id) (CLIENT_ID env)";
      cases "or_else (Option.bind k client_secret) (CLIENT_SECRET env)";
      cases "or_else (Option.bind k tenant_id) (TENANT_ID env)")
     (simp_all add: api_execute_def generateId_def Date_now_def Let_def
        error_response_def timestamp_now_def)


lemma execute_catch_missing_configuration:
  "execute_catch missing_configuration = ''Failed to create Teams meeting: '' @ missing_configuration"
  by (simp add: execute_catch_def missing_configuration_def)

lemma api_execute_end_not_after_start_cases:
  assumes "Date_parse w (startDateTime input) = Some startTime"
    and "Date_parse w (endDateTime input) = Some endTime"
    and "endTime \<le> startTime"
  shows "api_execute \<lparr>input_data = Some input, config = k\<rparr> env w =
           (if truthy (or_else (Option.bind k client_id) (CLIENT_ID env)) \<and>
               truthy (or_else (Option.bind k client_secret) (CLIENT_SECRET env)) \<and>
               truthy (or_else (Option.bind k tenant_id) (TENANT_ID env))
            then error_response 400 (fst (generateId w)) ''VALIDATION_ERROR''
                   (if subject input = [] \<or> startDateTime input = [] \<or> endDateTime input = []
                    then ''Missing required input fields''
                    else ''End time must be after start time'')
                   (snd (generateId w))
            else configuration_error (fst (generateId w))
                   (or_else (Option.bind k client_id) (CLIENT_ID env))
                   (or_else (Option.bind k client_secret) (CLIENT_SECRET env))
                   (or_else (Option.bind k tenant_id) (TENANT_ID env))
                   (snd (generateId w)))"
  using assms
  by (cases "or_else (Option.bind k client_id) (CLIENT_ID env)";
      cases "or_else (Option.bind k client_secret) (CLIENT_SECRET env)";
      cases "or_else (Option.bind k tenant_id) (TENANT_ID env)")
     (simp_all add: api_execute_def generateId_def Date_now_def Let_def)

text \<open>
  The claim in its first form, that a request whose end is not after its start fails
  with \<open>VALIDATION_ERROR\<close> and the message \<open>End time must be after start time\<close>
  whatever its other fields are, does not hold: the checks of the credentials and of
  the required fields come first. With the end equal to the start, the Express handler
  answers \<open>Missing required input fields\<close> to a request without a subject and
  \<open>CONFIGURATION_ERROR\<close> to one without credentials, and \<open>execute\<close> without a
  client secret throws the error of the missing configuration.
\<close>

theorem end_not_after_start_counterexample:
  "Date_parse world0 (startDateTime untitled) = Some 1893488400000 \<and>
   Date_parse world0 (endDateTime untitled) = Some 1893488400000 \<and>
   api_execute (body_of untitled) env0 world0 =
     ((400, JObj
        [(''execution_id'', JStr ''exec_1793577600000_k3x9q''),
         (''status'', JStr ''error''),
         (''error_code'', JStr ''VALIDATION_ERROR''),
         (''error_message'', JStr ''Missing required input fields''),
         (''timestamp'', JStr ''1793577600001'')]),
      world0\<lparr>reads := 2\<rparr>) \<and>
   api_execute \<lparr>input_data = Some no_duration, config = None\<rparr> env0 world0 =
     ((400, JObj
        [(''execution_id'', JStr ''exec_1793577600000_k3x9q''),
         (''status'', JStr ''error''),
         (''error_code'', JStr ''CONFIGURATION_ERROR''),
         (''error_message'', JStr ''Missing required Microsoft Graph API configuration''),
         (''error_details'', JObj
            [(''missingKeys'',
                JArr [JStr ''client_id'', JStr ''client_secret'', JStr ''tenant_id''])]),
         (''timestamp'', JStr ''1793577600001'')]),
      world0\<lparr>reads := 2\<rparr>) \<and>
   execute no_duration (config0\<lparr>client_secret := None\<rparr>) context0 world0 =
     (Inl (''Failed to create Teams meeting: Missing required Microsoft Graph API '' @
           ''configuration: client_id, client_secret, and tenant_id are required''), world0)"
proof -
  have p: "Date_parse world0 (startDateTime untitled) = Some 1893488400000"
    "Date_parse world0 (endDateTime untitled) = Some 1893488400000"
    by (simp_all add: untitled_def no_duration_def standup_def world0_def parse_test_def)
  have e: "api_execute (body_of untitled) env0 world0 =
     ((400, JObj
        [(''execution_id'', JStr ''exec_1793577600000_k3x9q''),
         (''status'', JStr ''error''),
         (''error_code'', JStr ''VALIDATION_ERROR''),
         (''error_message'', JStr ''Missing required input fields''),
         (''timestamp'', JStr ''1793577600001'')]),
      world0\<lparr>reads := 2\<rparr>)"
    by (simp add: express_defs tool_defs Date_now_def world0_def parse_test_def untitled_def
          no_duration_def standup_def show_nat.simps)
  have k: "api_execute \<lparr>input_data = Some no_duration, config = None\<rparr> env0 world0 =
     ((400, JObj
        [(''execution_id'', JStr ''exec_1793577600000_k3x9q''),
         (''status'', JStr ''error''),
         (''error_code'', JStr ''CONFIGURATION_ERROR''),
         (''error_message'', JStr ''Missing required Microsoft Graph API configuration''),
         (''error_details'', JObj
            [(''missingKeys'',
                JArr [JStr ''client_id'', JStr ''client_secret'', JStr ''tenant_id''])]),
         (''timestamp'', JStr ''1793577600001'')]),
      world0\<lparr>reads := 2\<rparr>)"
    by (simp add: express_defs Date_now_def world0_def show_nat.simps)
  have t: "execute no_duration (config0\<lparr>client_secret := None\<rparr>) context0 world0 =
     (Inl (''Failed to create Teams meeting: Missing required Microsoft Graph API '' @
           ''configuration: client_id, client_secret, and tenant_id are required''), world0)"
    by (simp add: execute_def execute_try_def config0_def
          execute_catch_missing_configuration)
       (simp add: missing_configuration_def)
  show ?thesis
    using p e k t by simp
qed

text \<open>
  Claim C3, as amended. Take a request whose start and end both parse and whose end is
  not after its start; everything else (attendees, description, permission flags,
  acting user, the provider, the clock) is arbitrary. Then the invocation fails and
  sends nothing: \<open>execute\<close> throws and leaves the world as it was, the Express
  handler answers 400 and only reads the clock (for the execution id and the
  timestamp). Which check fails is decided by their order. With the credentials
  configured, the Express handler answers with the code \<open>VALIDATION_ERROR\<close>, and with
  the message \<open>End time must be after start time\<close> when subject, start and end are
  non-empty (\<open>Missing required input fields\<close> otherwise); \<open>execute\<close>, which has no
  error codes, throws in its \<open>try\<close> block an Error of the message
  \<open>End time must be after start time\<close>, which its \<open>catch\<close> throws again behind
  \<open>Failed to create Teams meeting:\<close>. Without the credentials the answer is
  \<open>CONFIGURATION_ERROR\<close>, and the missing-configuration Error in the tool.
\<close>

theorem end_not_after_start:
  assumes "Date_parse w (startDateTime input) = Some startTime"
    and "Date_parse w (endDateTime input) = Some endTime"
    and "endTime \<le> startTime"
  shows "(\<exists>msg. execute input cfg ctx w = (Inl msg, w))
     \<and> (truthy (client_id cfg) \<and> truthy (client_secret cfg) \<and> truthy (tenant_id cfg) \<longrightarrow>
          execute_try input cfg ctx w = (Inl ''End time must be after start time'', w) \<and>
          execute input cfg ctx w =
            (Inl ''Failed to create Teams meeting: End time must be after start time'', w))
     \<and> (\<exists>answer. api_execute \<lparr>input_data = Some input, config = k\<rparr> env w =
           ((400, answer), w\<lparr>reads := Suc (Suc (reads w))\<rparr>))
     \<and> (truthy (or_else (Option.bind k client_id) (CLIENT_ID env)) \<and>
        truthy (or_else (Option.bind k client_secret) (CLIENT_SECRET env)) \<and>
        truthy (or_else (Option.bind k tenant_id) (TENANT_ID env)) \<and>
        subject input \<noteq> [] \<and> startDateTime input \<noteq> [] \<and> endDateTime input \<noteq> [] \<longrightarrow>
          api_execute \<lparr>input_data = Some input, config = k\<rparr> env w =
            ((400, JObj
               [(''execution_id'',
                   JStr (''exec_'' @ show_int (clock w (reads w)) @ ''_'' @ random36 w)),
                (''status'', JStr ''error''),
                (''error_code'', JStr ''VALIDATION_ERROR''),
                (''error_message'', JStr ''End time must be after start time''),
                (''timestamp'', JStr (toISOString w (clock w (Suc (reads w)))))]),
             w\<lparr>reads := Suc (Suc (reads w))\<rparr>))
     \<and> execute input cfg ctx w =
         (Inl (''Failed to create Teams meeting: '' @
               (if truthy (client_id cfg) \<and> truthy (client_secret cfg) \<and> truthy (tenant_id cfg)
                then ''End time must be after start time'' else missing_configuration)), w)
     \<and> api_execute \<lparr>input_data = Some input, config = k\<rparr> env w =
           (if truthy (or_else (Option.bind k client_id) (CLIENT_ID env)) \<and>
               truthy (or_else (Option.bind k client_secret) (CLIENT_SECRET env)) \<and>
               truthy (or_else (Option.bind k tenant_id) (TENANT_ID env))
            then error_response 400 (fst (generateId w)) ''VALIDATION_ERROR''
                   (if subject input = [] \<or> startDateTime input = [] \<or> endDateTime input = []
                    then ''Missing required input fields''
                    else ''End time must be after start time'')
                   (snd (generateId w))
            else configuration_error (fst (generateId w))
                   (or_else (Option.bind k client_id) (CLIENT_ID env))
                   (or_else (Option.bind k client_secret) (CLIENT_SECRET env))
                   (or_else (Option.bind k tenant_id) (TENANT_ID env))
                   (snd (generateId w)))"
proof -
  note t = execute_try_end_not_after_start [OF assms, of cfg ctx]
  have a: "\<exists>msg. execute input cfg ctx w = (Inl msg, w)"
    by (simp add: execute_def t)
  have b: "truthy (client_id cfg) \<and> truthy (client_secret cfg) \<and> truthy (tenant_id cfg) \<longrightarrow>
          execute_try input cfg ctx w = (Inl ''End time must be after start time'', w) \<and>
          execute input cfg ctx w =
            (Inl ''Failed to create Teams meeting: End time must be after start time'', w)"
    by (simp add: execute_def t execute_catch_plain)
  have c: "execute input cfg ctx w =
         (Inl (''Failed to create Teams meeting: '' @
               (if truthy (client_id cfg) \<and> truthy (client_secret cfg) \<and> truthy (tenant_id cfg)
                then ''End time must be after start time'' else missing_configuration)), w)"
    by (simp add: execute_def t execute_catch_plain execute_catch_missing_configuration)
  show ?thesis
    using a b c api_execute_end_not_after_start [OF assms, of k env]
      api_execute_validation_error [OF assms, of k env]
      api_execute_end_not_after_start_cases [OF assms, of k env]
    by blast
qed

lemma no_duration_parsed:
  "Date_parse world0 (startDateTime no_duration) = Some 1893488400000"
  "Date_parse world0 (endDateTime no_duration) = Some 1893488400000"
  by (simp_all add: no_duration_def standup_def world0_def parse_test_def)

theorem end_not_after_start_witness:
  "Date_parse world0 (startDateTime no_duration) = Some 1893488400000 \<and>
   Date_parse world0 (endDateTime no_duration) = Some 1893488400000 \<and>
   execute no_duration config0 context0 world0 =
     (Inl ''Failed to create Teams meeting: End time must be after start time'', world0) \<and>
   api_execute (body_of no_duration) env0 world0 =
     ((400, JObj
        [(''execution_id'', JStr ''exec_1793577600000_k3x9q''),
         (''status'', JStr ''error''),
         (''error_code'', JStr ''VALIDATION_ERROR''),
         (''error_message'', JStr ''End time must be after start time''),
         (''timestamp'', JStr ''1793577600001'')]),
      world0\<lparr>reads := 2\<rparr>)"
proof -
  have n: "show_int (clock world0 (reads world0)) = ''1793577600000''"
    "toISOString world0 (clock world0 (Suc (reads world0))) = ''1793577600001''"
    "random36 world0 = ''k3x9q''" "reads world0 = 0"
    by (simp_all add: world0_def show_int_def show_nat.simps)
  have c: "truthy (client_id config0)" "truthy (client_secret config0)"
    "truthy (tenant_id config0)"
    "truthy (or_else (Option.bind (Some config0) client_id) (CLIENT_ID env0))"
    "truthy (or_else (Option.bind (Some config0) client_secret) (CLIENT_SECRET env0))"
    "truthy (or_else (Option.bind (Some config0) tenant_id) (TENANT_ID env0))"
    "subject no_duration \<noteq> []" "startDateTime no_duration \<noteq> []"
    "endDateTime no_duration \<noteq> []"
    by (simp_all add: config0_def env0_def or_else_def no_duration_def standup_def)
  show ?thesis
    using end_not_after_start [OF no_duration_parsed, of config0 context0 "Some config0" env0]
      c n no_duration_parsed
    by (simp add: body_of_def)
qed

text \<open>
  The tool refuses a meeting that starts before the clock's reading, which it takes
  once, after the comparison of the two times.
\<close>

lemma execute_rejects_past:
  assumes "truthy (client_id cfg)" and "truthy (client_secret cfg)" and "truthy (tenant_id cfg)"
    and "Date_parse w (startDateTime input) = Some startTime"
    and "Date_parse w (endDateTime input) = Some endTime"
    and "startTime < endTime" and "startTime < clock w (reads w)"
  shows "execute input cfg ctx w =
           (Inl ''Failed to create Teams meeting: Cannot schedule meetings in the past'',
            w\<lparr>reads := Suc (reads w)\<rparr>)"
  using assms
  by (cases "client_id cfg"; cases "client_secret cfg"; cases "tenant_id cfg")
     (simp_all add: execute_def execute_try_def Date_now_def execute_catch_plain)

text \<open>
  Claim C4. The Express handler validates the same request without that check: its
  validation ends with the comparison of the two times. For the stand-up of
  2020-01-01, on a clock that reads 2026-11-02, the handler exchanges the credentials,
  creates the meeting and answers 200, where \<open>execute\<close> on the same request throws
  \<open>Cannot schedule meetings in the past\<close> after one reading of the clock.
\<close>

theorem api_execute_schedules_past_meeting:
  "Date_parse world0 (startDateTime past_standup) = Some 1577869200000
   \<and> 1577869200000 < clock world0 (reads world0)
   \<and> fst (fst (api_execute (body_of past_standup) env0 world0)) = 200
   \<and> sent (snd (api_execute (body_of past_standup) env0 world0)) =
       [Form_post (tokenUrl client0) (params client0),
        Json_post (endpoint None) (Some ''tok'') (meetingPayload past_standup)]
   \<and> execute past_standup config0 context0 world0 =
       (Inl ''Failed to create Teams meeting: Cannot schedule meetings in the past'',
        world0\<lparr>reads := 1\<rparr>)"
proof -
  have p: "Date_parse world0 (startDateTime past_standup) = Some 1577869200000"
    "Date_parse world0 (endDateTime past_standup) = Some 1577871000000"
    "1577869200000 < clock world0 (reads world0)" "reads world0 = 0"
    by (simp_all add: past_standup_def standup_def world0_def parse_test_def)
  have c: "truthy (client_id config0)" "truthy (client_secret config0)"
    "truthy (tenant_id config0)"
    by (simp_all add: config0_def)
  have t: "execute past_standup config0 context0 world0 =
       (Inl ''Failed to create Teams meeting: Cannot schedule meetings in the past'',
        world0\<lparr>reads := 1\<rparr>)"
    using execute_rejects_past [OF c p(1,2) _ p(3), of context0] p(4) by simp
  have e: "api_execute (body_of past_standup) env0 world0 =
     ((200, JObj
        [(''execution_id'', JStr ''exec_1793577600000_k3x9q''),
         (''status'', JStr ''success''),
         (''data'', JObj
            [(''meeting'', JObj
                [(''meeting_id'', JStr ''m1''),
                 (''join_url'', JStr ''https://teams.microsoft.com/l/m1''),
                 (''subject'', JStr ''Standup''),
                 (''start_time'', Undefined),
                 (''end_time'', Undefined)]),
             (''summary'', JStr (''Successfully created Teams meeting '' @ [CHR 0x22] @
                                 ''Standup'' @ [CHR 0x22]))]),
         (''timestamp'', JStr ''1793581200000'')]),
      world0\<lparr>reads := 3,
             sent := [Form_post (tokenUrl client0) (params client0),
                      Json_post (endpoint None) (Some ''tok'') (meetingPayload past_standup)]\<rparr>)"
    by (simp add: express_defs tool_defs scenario_defs client_defs show_nat.simps
          past_standup_def)
  show ?thesis
    using p t e by simp
qed

end
